theory Spec2Isabelle
  imports Main "HOL-Library.Word" "HOL-Library.AList"
begin

section \<open>Python values used by the authentication core\<close>

text \<open>
  A Python \<open>str\<close> that is turned into bytes is a list of code points; a \<open>bytes\<close> object
  is a list of 8-bit words. Texts that the code only compares or copies (emails, token
  type names, error details) are \<open>string\<close>s.
\<close>

type_synonym codepoint = nat
type_synonym pystr = "codepoint list"
type_synonym byte = "8 word"
type_synonym bytes = "byte list"

datatype py_error =
    UnicodeEncodeError
  | UnicodeDecodeError
  | ValueError
  | TypeError
  | AttributeError
  | OverflowError
  | JWSError

subsection \<open>\<open>str.encode('utf-8')\<close> and \<open>bytes.decode('utf-8')\<close>\<close>

text \<open>
  The strict UTF-8 codec of Python: a surrogate code point (U+D800..U+DFFF) cannot be
  encoded and raises; a byte sequence that is not well-formed UTF-8 cannot be decoded.
\<close>

definition utf8_char :: "codepoint \<Rightarrow> bytes option" where
  "utf8_char c =
     (if c < 0x80 then Some [of_nat c]
      else if c < 0x800 then Some [of_nat (0xC0 + c div 64), of_nat (0x80 + c mod 64)]
      else if 0xD800 \<le> c \<and> c \<le> 0xDFFF then None
      else if c < 0x10000 then
        Some [of_nat (0xE0 + c div 4096), of_nat (0x80 + (c div 64) mod 64),
              of_nat (0x80 + c mod 64)]
      else if c < 0x110000 then
        Some [of_nat (0xF0 + c div 262144), of_nat (0x80 + (c div 4096) mod 64),
              of_nat (0x80 + (c div 64) mod 64), of_nat (0x80 + c mod 64)]
      else None)"

fun encode_utf8 :: "pystr \<Rightarrow> py_error + bytes" where
  "encode_utf8 [] = Inr []"
| "encode_utf8 (c # cs) =
     (case utf8_char c of
        None \<Rightarrow> Inl UnicodeEncodeError
      | Some bs \<Rightarrow>
          (case encode_utf8 cs of Inl e \<Rightarrow> Inl e | Inr r \<Rightarrow> Inr (bs @ r)))"

definition cont :: "byte \<Rightarrow> bool" where
  "cont b = (0x80 \<le> b \<and> b \<le> 0xBF)"

definition low6 :: "byte \<Rightarrow> nat" where
  "low6 b = unat b mod 64"

definition cons_cp :: "codepoint \<Rightarrow> py_error + pystr \<Rightarrow> py_error + pystr" where
  "cons_cp c r = (case r of Inl e \<Rightarrow> Inl e | Inr cs \<Rightarrow> Inr (c # cs))"

fun decode_utf8 :: "bytes \<Rightarrow> py_error + pystr" where
  "decode_utf8 [] = Inr []"
| "decode_utf8 (b # bs) =
     (if b < 0x80 then cons_cp (unat b) (decode_utf8 bs)
      else if 0xC2 \<le> b \<and> b \<le> 0xDF then
        (case bs of
           b1 # r \<Rightarrow>
             if cont b1 then cons_cp ((unat b mod 32) * 64 + low6 b1) (decode_utf8 r)
             else Inl UnicodeDecodeError
         | _ \<Rightarrow> Inl UnicodeDecodeError)
      else if 0xE0 \<le> b \<and> b \<le> 0xEF then
        (case bs of
           b1 # b2 # r \<Rightarrow>
             (let c = (unat b mod 16) * 4096 + low6 b1 * 64 + low6 b2 in
              if cont b1 \<and> cont b2 \<and> 0x800 \<le> c \<and> \<not> (0xD800 \<le> c \<and> c \<le> 0xDFFF)
              then cons_cp c (decode_utf8 r)
              else Inl UnicodeDecodeError)
         | _ \<Rightarrow> Inl UnicodeDecodeError)
      else if 0xF0 \<le> b \<and> b \<le> 0xF4 then
        (case bs of
           b1 # b2 # b3 # r \<Rightarrow>
             (let c = (unat b mod 8) * 262144 + low6 b1 * 4096 + low6 b2 * 64 + low6 b3 in
              if cont b1 \<and> cont b2 \<and> cont b3 \<and> 0x10000 \<le> c \<and> c < 0x110000
              then cons_cp c (decode_utf8 r)
              else Inl UnicodeDecodeError)
         | _ \<Rightarrow> Inl UnicodeDecodeError)
      else Inl UnicodeDecodeError)"

definition is_ascii :: "byte \<Rightarrow> bool" where
  "is_ascii b = (b < 0x80)"

section \<open>The bcrypt package\<close>

text \<open>
  \<open>bcrypt\<close> is a third-party package, not part of the repository. It is modelled by its
  interface: a salt string \<open>$2b$<cost>$<22 radix-64 characters>\<close>, a hash string that is
  the salt string followed by the digest, and \<open>checkpw\<close>, which recomputes the hash with
  the stored hash as the salt string and compares. The key-derivation function itself is
  the parameter \<open>kdf\<close> (cost, salt characters, password); the 22 characters that encode
  the 16 fresh random bytes of \<open>gensalt\<close> are the parameter \<open>rnd\<close>.
\<close>

type_synonym kdf = "nat \<Rightarrow> bytes \<Rightarrow> bytes \<Rightarrow> bytes"

definition radix64 :: "byte \<Rightarrow> bool" where
  "radix64 b =
     (b = 0x2E \<or> b = 0x2F \<or> (0x30 \<le> b \<and> b \<le> 0x39) \<or> (0x41 \<le> b \<and> b \<le> 0x5A)
      \<or> (0x61 \<le> b \<and> b \<le> 0x7A))"

definition two_digits :: "nat \<Rightarrow> bytes" where
  "two_digits n = [of_nat (0x30 + (n div 10) mod 10), of_nat (0x30 + n mod 10)]"

definition gensalt :: "nat \<Rightarrow> bytes \<Rightarrow> py_error + bytes" where
  "gensalt rounds rnd =
     (if rounds < 4 \<or> 31 < rounds then Inl ValueError
      else Inr ([0x24, 0x32, 0x62, 0x24] @ two_digits rounds @ [0x24] @ rnd))"

definition is_digit_byte :: "byte \<Rightarrow> bool" where
  "is_digit_byte b = (0x30 \<le> b \<and> b \<le> 0x39)"

definition salt_cost :: "bytes \<Rightarrow> nat" where
  "salt_cost s = 10 * (unat (s ! 4) - 0x30) + (unat (s ! 5) - 0x30)"

definition valid_salt :: "bytes \<Rightarrow> bool" where
  "valid_salt s =
     (29 \<le> length s \<and> s ! 0 = 0x24 \<and> s ! 1 = 0x32
      \<and> (s ! 2 = 0x61 \<or> s ! 2 = 0x62 \<or> s ! 2 = 0x78 \<or> s ! 2 = 0x79)
      \<and> s ! 3 = 0x24 \<and> is_digit_byte (s ! 4) \<and> is_digit_byte (s ! 5)
      \<and> 4 \<le> salt_cost s \<and> salt_cost s \<le> 31 \<and> s ! 6 = 0x24
      \<and> list_all radix64 (take 22 (drop 7 s)))"

definition hashpw :: "kdf \<Rightarrow> bytes \<Rightarrow> bytes \<Rightarrow> py_error + bytes" where
  "hashpw kdf password salt =
     (if 72 < length password then Inl ValueError
      else if \<not> valid_salt salt then Inl ValueError
      else Inr (take 29 salt @ kdf (salt_cost salt) (take 22 (drop 7 salt)) password))"

definition checkpw :: "kdf \<Rightarrow> bytes \<Rightarrow> bytes \<Rightarrow> py_error + bool" where
  "checkpw kdf password hashed_password =
     (case hashpw kdf password hashed_password of
        Inl e \<Rightarrow> Inl e
      | Inr h \<Rightarrow> Inr (h = hashed_password))"

text \<open>The cost that a hash string carries, read from its text (characters 4 and 5).\<close>

definition hash_cost :: "pystr \<Rightarrow> nat" where
  "hash_cost h = 10 * (h ! 4 - 0x30) + (h ! 5 - 0x30)"

section \<open>Password hasher (app/core/security.py)\<close>

definition verify_password :: "kdf \<Rightarrow> pystr \<Rightarrow> pystr \<Rightarrow> py_error + bool" where
  "verify_password kdf plain_password hashed_password =
     (case encode_utf8 plain_password of
        Inl e \<Rightarrow> Inl e
      | Inr b \<Rightarrow>
          (let password_bytes = take 72 b in
           case encode_utf8 hashed_password of
             Inl e \<Rightarrow> Inl e
           | Inr hashed_bytes \<Rightarrow> checkpw kdf password_bytes hashed_bytes))"

definition get_password_hash :: "kdf \<Rightarrow> bytes \<Rightarrow> pystr \<Rightarrow> py_error + pystr" where
  "get_password_hash kdf rnd password =
     (case encode_utf8 password of
        Inl e \<Rightarrow> Inl e
      | Inr b \<Rightarrow>
          (let password_bytes = take 72 b in
           case gensalt 12 rnd of
             Inl e \<Rightarrow> Inl e
           | Inr salt \<Rightarrow>
               (case hashpw kdf password_bytes salt of
                  Inl e \<Rightarrow> Inl e
                | Inr hashed \<Rightarrow> decode_utf8 hashed)))"

section \<open>Configuration (app/core/config.py)\<close>

text \<open>The security fields of \<open>Settings\<close>; \<open>SECRET_KEY\<close> has no default.\<close>

record settings =
  SECRET_KEY :: string
  JWT_ALGORITHM :: string
  ACCESS_TOKEN_EXPIRE_MINUTES :: int
  REFRESH_TOKEN_EXPIRE_DAYS :: int
  BCRYPT_ROUNDS :: int

definition default_settings :: "string \<Rightarrow> settings" where
  "default_settings secret =
     \<lparr>SECRET_KEY = secret, JWT_ALGORITHM = ''HS256'', ACCESS_TOKEN_EXPIRE_MINUTES = 30,
      REFRESH_TOKEN_EXPIRE_DAYS = 7, BCRYPT_ROUNDS = 12\<rparr>"

section \<open>Errors raised by the endpoints\<close>

text \<open>
  The values of a claims \<open>dict\<close>: what \<open>json.loads\<close> returns (\<open>None\<close>, a \<open>bool\<close>, an
  \<open>int\<close>, a \<open>float\<close>, a \<open>str\<close>, a \<open>list\<close>, a \<open>dict\<close>) and, before encoding, a
  \<open>datetime\<close>. A finite \<open>float\<close> is \<open>Finite m e\<close>, the number \<open>m * 2 ^ e\<close>.

  An \<open>HTTPException\<close> carries a status code, a detail and headers (\<open>[]\<close> when none are
  given). The detail of \<open>verify_token_type\<close> is a formatted text; it is kept as its two
  arguments. An exception that no handler of the application catches is \<open>Uncaught\<close>;
  a request body that fails the schema is \<open>RequestValidationError\<close> with the failing
  fields.
\<close>

datatype pyfloat = Finite int int | PosInf | NegInf | NaN

datatype jval =
    JNull
  | JBool bool
  | JInt int
  | JFloat pyfloat
  | JStr string
  | JList "jval list"
  | JDict "(string \<times> jval) list"
  | JDatetime int

datatype detail = Msg string | InvalidTokenTypeMsg string "jval option"

datatype failure =
    HTTPException nat detail "(string \<times> string) list"
  | Uncaught py_error
  | RequestValidationError "string list"

section \<open>The python-jose package\<close>

text \<open>
  \<open>jose.jwt\<close> is a third-party package. A token text is modelled by what the package
  parses it to: \<open>Jws alg claims sig\<close> for a compact serialisation whose header names
  \<open>alg\<close>, whose payload is the JSON object \<open>claims\<close> and whose signature is \<open>sig\<close>;
  \<open>Garbage\<close> for any other text. The MAC is the parameter \<open>mac\<close> (algorithm, key,
  signed claims). A datetime is a number of microseconds since the epoch, and
  \<open>timegm\<close> its whole seconds.
\<close>

type_synonym datetime = int
type_synonym timedelta = int
type_synonym claims = "(string \<times> jval) list"
type_synonym mac = "string \<Rightarrow> string \<Rightarrow> claims \<Rightarrow> bytes"

datatype token = Jws string claims bytes | Garbage string

datatype jose_error = JWTError | ExpiredSignatureError | JWTClaimsError

text \<open>What a call into the package raises: one of its own errors, or a Python exception.\<close>

datatype raised = Jose jose_error | Python py_error

definition timegm :: "datetime \<Rightarrow> int" where
  "timegm t = t div 1000000"

definition hmac_alg :: "string \<Rightarrow> bool" where
  "hmac_alg a = (a = ''HS256'' \<or> a = ''HS384'' \<or> a = ''HS512'')"

definition to_intdate :: "string \<times> jval \<Rightarrow> string \<times> jval" where
  "to_intdate kv =
     (case kv of
        (k, JDatetime t) \<Rightarrow>
          if k = ''exp'' \<or> k = ''iat'' \<or> k = ''nbf'' then (k, JInt (timegm t)) else kv
      | _ \<Rightarrow> kv)"

text \<open>\<open>json.dumps\<close> raises \<open>TypeError\<close> on a \<open>datetime\<close>, at any depth.\<close>

fun is_datetime :: "jval \<Rightarrow> bool" where
  "is_datetime (JDatetime t) = True"
| "is_datetime (JList xs) = (\<exists>x \<in> set xs. is_datetime x)"
| "is_datetime (JDict kvs) = (\<exists>kv \<in> set kvs. is_datetime (snd kv))"
| "is_datetime JNull = False"
| "is_datetime (JBool b) = False"
| "is_datetime (JInt n) = False"
| "is_datetime (JFloat f) = False"
| "is_datetime (JStr s) = False"

definition jwt_encode :: "mac \<Rightarrow> claims \<Rightarrow> string \<Rightarrow> string \<Rightarrow> py_error + token" where
  "jwt_encode mac claims key algorithm =
     (let claims' = map to_intdate claims in
      if \<not> hmac_alg algorithm then Inl JWSError
      else if list_ex (\<lambda>kv. is_datetime (snd kv)) claims' then Inl TypeError
      else Inr (Jws algorithm claims' (mac algorithm key claims')))"

text \<open>
  Python's \<open>int(v)\<close>. An \<open>int\<close> is itself, a \<open>bool\<close> 0 or 1, a finite \<open>float\<close> is
  truncated towards zero, a NaN raises \<open>ValueError\<close> and an infinity
  \<open>OverflowError\<close>; a \<open>str\<close> is parsed, which is the parameter \<open>int_of_str\<close>
  (\<open>None\<close> when \<open>int\<close> raises \<open>ValueError\<close>); any other value raises \<open>TypeError\<close>.
\<close>

definition float_trunc :: "int \<Rightarrow> int \<Rightarrow> int" where
  "float_trunc m e =
     (if 0 \<le> e then m * 2 ^ nat e else sgn m * (\<bar>m\<bar> div 2 ^ nat (- e)))"

fun py_int :: "(string \<Rightarrow> int option) \<Rightarrow> jval \<Rightarrow> py_error + int" where
  "py_int int_of_str (JInt n) = Inr n"
| "py_int int_of_str (JBool b) = Inr (if b then 1 else 0)"
| "py_int int_of_str (JFloat (Finite m e)) = Inr (float_trunc m e)"
| "py_int int_of_str (JFloat NaN) = Inl ValueError"
| "py_int int_of_str (JFloat PosInf) = Inl OverflowError"
| "py_int int_of_str (JFloat NegInf) = Inl OverflowError"
| "py_int int_of_str (JStr s) =
     (case int_of_str s of Some n \<Rightarrow> Inr n | None \<Rightarrow> Inl ValueError)"
| "py_int int_of_str JNull = Inl TypeError"
| "py_int int_of_str (JList xs) = Inl TypeError"
| "py_int int_of_str (JDict kvs) = Inl TypeError"
| "py_int int_of_str (JDatetime t) = Inl TypeError"

text \<open>
  The claim validation of \<open>jwt.decode\<close>, with the defaults that \<open>decode_token\<close>
  leaves in place: every \<open>verify_\<close> option on, no claim required, no leeway, and no
  audience, issuer, subject or access token given. The time claims are read as
  \<open>try: int(claims[k]) except ValueError: raise JWTClaimsError\<close>, so an exception of
  \<open>int\<close> that is not a \<open>ValueError\<close> leaves the package as it is. The checks run in
  the order \<open>iat\<close>, \<open>nbf\<close>, \<open>exp\<close>, \<open>aud\<close>, \<open>iss\<close>, \<open>sub\<close>, \<open>jti\<close>,
  \<open>at_hash\<close>; with no issuer given, the one for \<open>iss\<close> checks nothing.
\<close>

definition int_claim :: "(string \<Rightarrow> int option) \<Rightarrow> jval \<Rightarrow> raised + int" where
  "int_claim int_of_str v =
     (case py_int int_of_str v of
        Inr n \<Rightarrow> Inr n
      | Inl ValueError \<Rightarrow> Inl (Jose JWTClaimsError)
      | Inl e \<Rightarrow> Inl (Python e))"

definition validate_iat :: "(string \<Rightarrow> int option) \<Rightarrow> claims \<Rightarrow> raised + unit" where
  "validate_iat int_of_str c =
     (case map_of c ''iat'' of
        None \<Rightarrow> Inr ()
      | Some v \<Rightarrow> (case int_claim int_of_str v of Inl e \<Rightarrow> Inl e | Inr _ \<Rightarrow> Inr ()))"

definition validate_nbf :: "(string \<Rightarrow> int option) \<Rightarrow> int \<Rightarrow> claims \<Rightarrow> raised + unit" where
  "validate_nbf int_of_str now_s c =
     (case map_of c ''nbf'' of
        None \<Rightarrow> Inr ()
      | Some v \<Rightarrow>
          (case int_claim int_of_str v of
             Inl e \<Rightarrow> Inl e
           | Inr nbf \<Rightarrow> if nbf > now_s then Inl (Jose JWTClaimsError) else Inr ()))"

definition validate_exp :: "(string \<Rightarrow> int option) \<Rightarrow> int \<Rightarrow> claims \<Rightarrow> raised + unit" where
  "validate_exp int_of_str now_s c =
     (case map_of c ''exp'' of
        None \<Rightarrow> Inr ()
      | Some v \<Rightarrow>
          (case int_claim int_of_str v of
             Inl e \<Rightarrow> Inl e
           | Inr exp \<Rightarrow> if exp < now_s then Inl (Jose ExpiredSignatureError) else Inr ()))"

text \<open>
  With no audience given, an \<open>aud\<close> claim never passes: one that is neither a text nor
  a list of texts is an invalid format, and \<open>None\<close> is not among the texts of any other.
\<close>

definition is_str :: "jval \<Rightarrow> bool" where
  "is_str v = (case v of JStr _ \<Rightarrow> True | _ \<Rightarrow> False)"

definition validate_aud :: "claims \<Rightarrow> raised + unit" where
  "validate_aud c =
     (case map_of c ''aud'' of
        None \<Rightarrow> Inr ()
      | Some a \<Rightarrow>
          (case (case a of JStr s \<Rightarrow> Some [a] | JList xs \<Rightarrow> Some xs | _ \<Rightarrow> None) of
             None \<Rightarrow> Inl (Jose JWTClaimsError)
           | Some audience_claims \<Rightarrow>
               if list_ex (\<lambda>x. \<not> is_str x) audience_claims then Inl (Jose JWTClaimsError)
               else Inl (Jose JWTClaimsError)))"

definition validate_sub :: "claims \<Rightarrow> raised + unit" where
  "validate_sub c =
     (case map_of c ''sub'' of
        None \<Rightarrow> Inr ()
      | Some v \<Rightarrow> if \<not> is_str v then Inl (Jose JWTClaimsError) else Inr ())"

definition validate_jti :: "claims \<Rightarrow> raised + unit" where
  "validate_jti c =
     (case map_of c ''jti'' of
        None \<Rightarrow> Inr ()
      | Some v \<Rightarrow> if \<not> is_str v then Inl (Jose JWTClaimsError) else Inr ())"

definition validate_at_hash :: "claims \<Rightarrow> raised + unit" where
  "validate_at_hash c =
     (case map_of c ''at_hash'' of None \<Rightarrow> Inr () | Some _ \<Rightarrow> Inl (Jose JWTClaimsError))"

definition and_then :: "raised + unit \<Rightarrow> raised + unit \<Rightarrow> raised + unit" where
  "and_then a b = (case a of Inl e \<Rightarrow> Inl e | Inr _ \<Rightarrow> b)"

definition validate_claims :: "(string \<Rightarrow> int option) \<Rightarrow> int \<Rightarrow> claims \<Rightarrow> raised + unit" where
  "validate_claims int_of_str now_s c =
     and_then (validate_iat int_of_str c)
    (and_then (validate_nbf int_of_str now_s c)
    (and_then (validate_exp int_of_str now_s c)
    (and_then (validate_aud c)
    (and_then (validate_sub c)
    (and_then (validate_jti c)
              (validate_at_hash c))))))"

definition jwt_decode ::
  "mac \<Rightarrow> (string \<Rightarrow> int option) \<Rightarrow> datetime \<Rightarrow> token \<Rightarrow> string \<Rightarrow> string list
     \<Rightarrow> raised + claims" where
  "jwt_decode mac int_of_str now tok key algorithms =
     (case tok of
        Garbage _ \<Rightarrow> Inl (Jose JWTError)
      | Jws alg c sg \<Rightarrow>
          if alg \<notin> set algorithms then Inl (Jose JWTError)
          else if \<not> hmac_alg alg \<or> sg \<noteq> mac alg key c then Inl (Jose JWTError)
          else (case validate_claims int_of_str (timegm now) c of
                  Inl e \<Rightarrow> Inl e
                | Inr _ \<Rightarrow> Inr c))"

section \<open>Token codec (app/core/security.py)\<close>

text \<open>
  \<open>now\<close> is the reading of \<open>datetime.utcnow()\<close>; the readings within one call are
  taken at the same instant. \<open>if expires_delta:\<close> is false for \<open>None\<close> and for a
  zero \<open>timedelta\<close>.
\<close>

definition create_access_token ::
  "settings \<Rightarrow> mac \<Rightarrow> datetime \<Rightarrow> claims \<Rightarrow> timedelta option \<Rightarrow> py_error + token" where
  "create_access_token st mac now data expires_delta =
     (let to_encode = data;
          expire =
            (case expires_delta of
               Some d \<Rightarrow>
                 if d \<noteq> 0 then now + d
                 else now + ACCESS_TOKEN_EXPIRE_MINUTES st * 60 * 1000000
             | None \<Rightarrow> now + ACCESS_TOKEN_EXPIRE_MINUTES st * 60 * 1000000);
          to_encode =
            AList.update ''type'' (JStr ''access'')
              (AList.update ''iat'' (JDatetime now)
                (AList.update ''exp'' (JDatetime expire) to_encode))
      in jwt_encode mac to_encode (SECRET_KEY st) (JWT_ALGORITHM st))"

definition create_refresh_token ::
  "settings \<Rightarrow> mac \<Rightarrow> datetime \<Rightarrow> claims \<Rightarrow> timedelta option \<Rightarrow> py_error + token" where
  "create_refresh_token st mac now data expires_delta =
     (let to_encode = data;
          expire =
            (case expires_delta of
               Some d \<Rightarrow>
                 if d \<noteq> 0 then now + d
                 else now + REFRESH_TOKEN_EXPIRE_DAYS st * 86400 * 1000000
             | None \<Rightarrow> now + REFRESH_TOKEN_EXPIRE_DAYS st * 86400 * 1000000);
          to_encode =
            AList.update ''type'' (JStr ''refresh'')
              (AList.update ''iat'' (JDatetime now)
                (AList.update ''exp'' (JDatetime expire) to_encode))
      in jwt_encode mac to_encode (SECRET_KEY st) (JWT_ALGORITHM st))"

definition credentials_exception :: failure where
  "credentials_exception =
     HTTPException 401 (Msg ''Could not validate credentials'')
       [(''WWW-Authenticate'', ''Bearer'')]"

text \<open>
  \<open>except JWTError\<close> catches the errors of the package (the expiry and the claims
  error are subclasses of \<open>JWTError\<close>); any other exception propagates.
\<close>

definition decode_token ::
  "settings \<Rightarrow> mac \<Rightarrow> (string \<Rightarrow> int option) \<Rightarrow> datetime \<Rightarrow> token \<Rightarrow> failure + claims" where
  "decode_token st mac int_of_str now tok =
     (case jwt_decode mac int_of_str now tok (SECRET_KEY st) [JWT_ALGORITHM st] of
        Inr payload \<Rightarrow> Inr payload
      | Inl (Jose e) \<Rightarrow> Inl credentials_exception
      | Inl (Python e) \<Rightarrow> Inl (Uncaught e))"

definition verify_token_type :: "claims \<Rightarrow> string \<Rightarrow> failure + unit" where
  "verify_token_type payload expected_type =
     (let token_type = map_of payload ''type'' in
      if token_type \<noteq> Some (JStr expected_type) then
        Inl (HTTPException 401 (InvalidTokenTypeMsg expected_type token_type)
               [(''WWW-Authenticate'', ''Bearer'')])
      else Inr ())"

record token_pair =
  t_access_token :: token
  t_refresh_token :: token
  t_token_type :: string

definition create_token_pair ::
  "settings \<Rightarrow> mac \<Rightarrow> datetime \<Rightarrow> string \<Rightarrow> string \<Rightarrow> py_error + token_pair" where
  "create_token_pair st mac now user_id email =
     (case create_access_token st mac now [(''sub'', JStr user_id), (''email'', JStr email)] None of
        Inl e \<Rightarrow> Inl e
      | Inr a \<Rightarrow>
          (case create_refresh_token st mac now [(''sub'', JStr user_id)] None of
             Inl e \<Rightarrow> Inl e
           | Inr r \<Rightarrow> Inr \<lparr>t_access_token = a, t_refresh_token = r, t_token_type = ''bearer''\<rparr>))"

section \<open>User records and storage\<close>

text \<open>
  Modelled from the spec: \<open>app/models/user.py\<close> is not among the sources. The
  credential record has the fields the spec names (identifier, email, password hash,
  active flag) and the ones the endpoints and \<open>UserResponse\<close> read or write. The
  identifier is a UUID, kept as its 128-bit number; \<open>uuid_str\<close> (\<open>str(user.id)\<close>)
  and \<open>uuid_parse\<close> (\<open>UUID(text)\<close>, \<open>None\<close> where it raises \<open>ValueError\<close>) are
  parameters. The table is the list of its rows; \<open>query.filter(p).first()\<close> is the
  first row that satisfies \<open>p\<close>.
\<close>

record user =
  user_id :: nat
  email :: string
  full_name :: "string option"
  hashed_password :: pystr
  is_active :: bool
  is_verified :: bool
  created_at :: datetime
  updated_at :: datetime
  last_login :: "datetime option"

type_synonym db = "user list"


section \<open>Request and response schemas (app/schemas/user.py, app/schemas/token.py)\<close>

text \<open>
  \<open>str.isupper\<close>, \<open>str.islower\<close> and \<open>str.isdigit\<close> on one character read the
  Unicode character database; they are the fields of the parameter \<open>chartab\<close>.
  \<open>EmailStr\<close> is the parameter \<open>email_validator\<close>, which gives the normalised
  address or \<open>None\<close>.
\<close>

record chartab =
  py_isupper :: "codepoint \<Rightarrow> bool"
  py_islower :: "codepoint \<Rightarrow> bool"
  py_isdigit :: "codepoint \<Rightarrow> bool"

record user_create =
  uc_email :: string
  uc_full_name :: "string option"
  uc_password :: pystr


record user_response =
  r_email :: string
  r_full_name :: "string option"
  r_id :: nat
  r_is_active :: bool
  r_is_verified :: bool
  r_created_at :: datetime
  r_updated_at :: datetime
  r_last_login :: "datetime option"

definition UserResponse :: "user \<Rightarrow> user_response" where
  "UserResponse u =
     \<lparr>r_email = email u, r_full_name = full_name u, r_id = user_id u,
      r_is_active = is_active u, r_is_verified = is_verified u,
      r_created_at = created_at u, r_updated_at = updated_at u,
      r_last_login = last_login u\<rparr>"

text \<open>\<open>Field(..., min_length=8, max_length=100)\<close>, counted in characters.\<close>

definition password_field :: "pystr \<Rightarrow> bool" where
  "password_field v = (8 \<le> length v \<and> length v \<le> 100)"

definition validate_password :: "chartab \<Rightarrow> pystr \<Rightarrow> py_error + pystr" where
  "validate_password ct v =
     (if length v < 8 then Inl ValueError
      else if \<not> list_ex (py_isupper ct) v then Inl ValueError
      else if \<not> list_ex (py_islower ct) v then Inl ValueError
      else if \<not> list_ex (py_isdigit ct) v then Inl ValueError
      else Inr v)"

definition UserCreate ::
  "chartab \<Rightarrow> (string \<Rightarrow> string option) \<Rightarrow> user_create \<Rightarrow> failure + user_create" where
  "UserCreate ct email_validator body =
     (let email_errors = (case email_validator (uc_email body) of None \<Rightarrow> [''email''] | Some _ \<Rightarrow> []);
          password_errors =
            (if \<not> password_field (uc_password body) then [''password'']
             else (case validate_password ct (uc_password body) of
                     Inl _ \<Rightarrow> [''password'']
                   | Inr _ \<Rightarrow> []))
      in case email_validator (uc_email body) of
           Some e \<Rightarrow>
             if password_errors = [] then Inr (body\<lparr>uc_email := e\<rparr>)
             else Inl (RequestValidationError password_errors)
         | None \<Rightarrow> Inl (RequestValidationError (email_errors @ password_errors)))"

section \<open>Identity resolver (app/api/deps.py)\<close>

text \<open>
  \<open>decode_token\<close> and \<open>verify_token_type\<close> raise \<open>HTTPException\<close>, which the
  handler \<open>except (JWTError, ValueError)\<close> does not catch, and neither does it catch
  the \<open>TypeError\<close> or \<open>OverflowError\<close> that \<open>decode_token\<close> lets through;
  \<open>UUID(None)\<close> raises
  \<open>TypeError\<close> and \<open>UUID\<close> of a value that is not a text raises \<open>AttributeError\<close>,
  which it does not catch either.
\<close>

definition get_current_user ::
  "settings \<Rightarrow> mac \<Rightarrow> (string \<Rightarrow> int option) \<Rightarrow> (string \<Rightarrow> nat option) \<Rightarrow> datetime \<Rightarrow> db \<Rightarrow> token
     \<Rightarrow> failure + user" where
  "get_current_user st mac int_of_str uuid_parse now db tok =
     (case decode_token st mac int_of_str now tok of
        Inl e \<Rightarrow> Inl e
      | Inr payload \<Rightarrow>
          (case verify_token_type payload ''access'' of
             Inl e \<Rightarrow> Inl e
           | Inr _ \<Rightarrow>
               (case map_of payload ''sub'' of
                  None \<Rightarrow> Inl (Uncaught TypeError)
                | Some (JStr s) \<Rightarrow>
                    (case uuid_parse s of
                       None \<Rightarrow>
                         Inl (HTTPException 401 (Msg ''Could not validate credentials'') [])
                     | Some i \<Rightarrow>
                         (case find (\<lambda>u. user_id u = i) db of
                            None \<Rightarrow> Inl (HTTPException 404 (Msg ''User not found'') [])
                          | Some u \<Rightarrow>
                              if \<not> is_active u
                              then Inl (HTTPException 403 (Msg ''Inactive user'') [])
                              else Inr u))
                | Some _ \<Rightarrow> Inl (Uncaught AttributeError))))"

section \<open>Credential service (app/api/v1/endpoints/auth.py)\<close>

text \<open>
  Every endpoint takes the table and returns its result with the table as committed.
  \<open>new_id\<close> and \<open>now\<close> are the identifier and the timestamps that storage gives a new
  row.
\<close>

definition register ::
  "kdf \<Rightarrow> bytes \<Rightarrow> nat \<Rightarrow> datetime \<Rightarrow> db \<Rightarrow> user_create \<Rightarrow> (failure + user) \<times> db" where
  "register kdf rnd new_id now db user_in =
     (case find (\<lambda>u. email u = uc_email user_in) db of
        Some existing_user \<Rightarrow>
          (Inl (HTTPException 400 (Msg ''Email already registered'') []), db)
      | None \<Rightarrow>
          (case get_password_hash kdf rnd (uc_password user_in) of
             Inl e \<Rightarrow> (Inl (Uncaught e), db)
           | Inr h \<Rightarrow>
               (let u = \<lparr>user_id = new_id, email = uc_email user_in,
                         full_name = uc_full_name user_in, hashed_password = h,
                         is_active = True, is_verified = False, created_at = now,
                         updated_at = now, last_login = None\<rparr>
                in (Inr u, db @ [u]))))"

text \<open>The route: the body is validated as \<open>UserCreate\<close>, the result serialised as \<open>UserResponse\<close>.\<close>

definition register_route ::
  "chartab \<Rightarrow> (string \<Rightarrow> string option) \<Rightarrow> kdf \<Rightarrow> bytes \<Rightarrow> nat \<Rightarrow> datetime \<Rightarrow> db \<Rightarrow> user_create
     \<Rightarrow> (failure + user_response) \<times> db" where
  "register_route ct email_validator kdf rnd new_id now db body =
     (case UserCreate ct email_validator body of
        Inl e \<Rightarrow> (Inl e, db)
      | Inr user_in \<Rightarrow>
          (case register kdf rnd new_id now db user_in of
             (Inl e, db') \<Rightarrow> (Inl e, db')
           | (Inr u, db') \<Rightarrow> (Inr (UserResponse u), db')))"



definition invalid_refresh_token :: failure where
  "invalid_refresh_token =
     HTTPException 401 (Msg ''Invalid refresh token'') [(''WWW-Authenticate'', ''Bearer'')]"

text \<open>
  \<open>except Exception\<close> turns every failure of the first three statements into the
  same exception. The subject is looked up by the text of its identifier.
\<close>

definition refresh_token ::
  "settings \<Rightarrow> mac \<Rightarrow> (string \<Rightarrow> int option) \<Rightarrow> (nat \<Rightarrow> string) \<Rightarrow> datetime \<Rightarrow> db \<Rightarrow> token
     \<Rightarrow> failure + token_pair" where
  "refresh_token st mac int_of_str uuid_str now db tok =
     (case decode_token st mac int_of_str now tok of
        Inl e \<Rightarrow> Inl invalid_refresh_token
      | Inr payload \<Rightarrow>
          (case verify_token_type payload ''refresh'' of
             Inl e \<Rightarrow> Inl invalid_refresh_token
           | Inr _ \<Rightarrow>
               (case find (\<lambda>u. Some (JStr (uuid_str (user_id u))) = map_of payload ''sub'') db of
                  None \<Rightarrow> Inl (HTTPException 401 (Msg ''User not found or inactive'') [])
                | Some u \<Rightarrow>
                    if \<not> is_active u
                    then Inl (HTTPException 401 (Msg ''User not found or inactive'') [])
                    else
                      (case create_token_pair st mac now (uuid_str (user_id u)) (email u) of
                         Inl e \<Rightarrow> Inl (Uncaught e)
                       | Inr tokens \<Rightarrow> Inr tokens))))"

definition get_current_user_info ::
  "settings \<Rightarrow> mac \<Rightarrow> (string \<Rightarrow> int option) \<Rightarrow> (string \<Rightarrow> nat option) \<Rightarrow> datetime \<Rightarrow> db \<Rightarrow> token
     \<Rightarrow> failure + user_response" where
  "get_current_user_info st mac int_of_str uuid_parse now db tok =
     (case get_current_user st mac int_of_str uuid_parse now db tok of
        Inl e \<Rightarrow> Inl e
      | Inr current_user \<Rightarrow> Inr (UserResponse current_user))"

section \<open>The conditions on a token that the specification names\<close>









text \<open>The token that the server's key signs for a claim set.\<close>

definition signed :: "settings \<Rightarrow> mac \<Rightarrow> claims \<Rightarrow> token" where
  "signed st mac c = Jws (JWT_ALGORITHM st) c (mac (JWT_ALGORITHM st) (SECRET_KEY st) c)"

text \<open>Stand-ins for the library parameters, used only to run the model on examples.\<close>

definition sample_mac :: mac where
  "sample_mac a k c = map (\<lambda>ch. of_nat (of_char ch)) (a @ k)"

definition sample_chartab :: chartab where
  "sample_chartab =
     \<lparr>py_isupper = (\<lambda>c. 0x41 \<le> c \<and> c \<le> 0x5A), py_islower = (\<lambda>c. 0x61 \<le> c \<and> c \<le> 0x7A),
      py_isdigit = (\<lambda>c. 0x30 \<le> c \<and> c \<le> 0x39)\<rparr>"

definition sample_int_of_str :: "string \<Rightarrow> int option" where
  "sample_int_of_str s =
     (if s \<noteq> [] \<and> list_all (\<lambda>ch. 48 \<le> (of_char ch :: nat) \<and> (of_char ch :: nat) \<le> 57) s
      then Some (foldl (\<lambda>n ch. 10 * n + (int (of_char ch) - 48)) 0 s)
      else None)"

definition sample_uuid_str :: "nat \<Rightarrow> string" where
  "sample_uuid_str n = replicate n (CHR ''1'')"

definition sample_uuid_parse :: "string \<Rightarrow> nat option" where
  "sample_uuid_parse s = (if list_all (\<lambda>c. c = CHR ''1'') s then Some (length s) else None)"

definition sample_settings :: settings where
  "sample_settings = default_settings ''0123456789abcdef0123456789abcdef''"

definition sample_kdf :: kdf where
  "sample_kdf c s pw = map (\<lambda>b. if b < 0x80 then b else 0x2E) pw"

definition sample_password :: pystr where
  "sample_password = [0x50, 0x61, 0x73, 0x73, 0x77, 0x30, 0x72, 0x64, 0x21]"

definition sample_hash :: pystr where
  "sample_hash = [0x24, 0x32, 0x62, 0x24, 0x31, 0x32, 0x24] @ replicate 22 0x2E @ sample_password"

definition alice :: user where
  "alice = \<lparr>user_id = 3, email = ''alice@example.com'', full_name = None,
            hashed_password = sample_hash, is_active = True, is_verified = False,
            created_at = 0, updated_at = 0, last_login = None\<rparr>"


section \<open>Properties of the password hasher\<close>

lemma decode_utf8_ascii:
  "list_all is_ascii bs \<Longrightarrow> decode_utf8 bs = Inr (map unat bs)"
  by (induction bs) (simp_all add: is_ascii_def cons_cp_def)

lemma encode_utf8_ascii:
  "list_all is_ascii bs \<Longrightarrow> encode_utf8 (map unat bs) = Inr bs"
  by (induction bs) (simp_all add: is_ascii_def utf8_char_def word_less_nat_alt)

lemma radix64_ascii: "radix64 b \<Longrightarrow> is_ascii b"
  unfolding radix64_def is_ascii_def by (auto simp: word_less_nat_alt word_le_nat_alt)

lemma gensalt_12: "gensalt 12 rnd = Inr ([0x24, 0x32, 0x62, 0x24, 0x31, 0x32, 0x24] @ rnd)"
  by (simp add: gensalt_def two_digits_def)

lemma valid_salt_gensalt:
  assumes "length rnd = 22" "list_all radix64 rnd"
  shows "valid_salt ([0x24, 0x32, 0x62, 0x24, 0x31, 0x32, 0x24] @ rnd @ d)"
    and "salt_cost ([0x24, 0x32, 0x62, 0x24, 0x31, 0x32, 0x24] @ rnd @ d) = 12"
  using assms by (simp_all add: valid_salt_def salt_cost_def is_digit_byte_def)

lemma sample_kdf_ascii: "\<forall>c s pw. list_all is_ascii (sample_kdf c s pw)"
  by (auto simp: sample_kdf_def list_all_iff is_ascii_def)

lemma hashpw_gensalt:
  assumes rnd: "length rnd = 22 \<and> list_all radix64 rnd" and len: "length pw \<le> 72"
  shows "hashpw kdf pw ([0x24, 0x32, 0x62, 0x24, 0x31, 0x32, 0x24] @ rnd @ x)
           = Inr ([0x24, 0x32, 0x62, 0x24, 0x31, 0x32, 0x24] @ rnd @ kdf 12 rnd pw)"
  unfolding hashpw_def using valid_salt_gensalt [of rnd x] rnd len by simp

lemma get_password_hash_value:
  assumes e: "encode_utf8 p = Inr b"
    and rnd: "length rnd = 22 \<and> list_all radix64 rnd"
    and kdf: "\<forall>c s pw. list_all is_ascii (kdf c s pw)"
  shows "get_password_hash kdf rnd p
           = Inr (map unat ([0x24, 0x32, 0x62, 0x24, 0x31, 0x32, 0x24] @ rnd
                            @ kdf 12 rnd (take 72 b)))"
proof -
  let ?hb = "[0x24, 0x32, 0x62, 0x24, 0x31, 0x32, 0x24] @ rnd @ kdf 12 rnd (take 72 b)"
  have asc: "list_all is_ascii ?hb"
    using rnd kdf
    by (auto simp: list_all_iff is_ascii_def intro: radix64_ascii [unfolded is_ascii_def])
  show ?thesis
    unfolding get_password_hash_def
    using e gensalt_12 [of rnd] hashpw_gensalt [OF rnd, of "take 72 b" kdf "[]"]
      decode_utf8_ascii [OF asc]
    by simp
qed

text \<open>
  C1. For every password \<open>p1\<close> that has a UTF-8 encoding, hashing succeeds and the
  password verifies against its own hash; every password \<open>p2\<close> whose UTF-8 encoding
  agrees with that of \<open>p1\<close> on the first 72 bytes verifies against the hash of \<open>p1\<close>
  as well. (\<open>rnd\<close> is the text of the fresh salt, \<open>kdf\<close> the key-derivation
  function, whose digest is ASCII text.)
\<close>

theorem verify_after_hash:
  assumes e1: "encode_utf8 p1 = Inr b1" and e2: "encode_utf8 p2 = Inr b2"
    and same: "take 72 b1 = take 72 b2"
    and rnd: "length rnd = 22 \<and> list_all radix64 rnd"
    and kdf: "\<forall>c s pw. list_all is_ascii (kdf c s pw)"
  shows "\<exists>h. get_password_hash kdf rnd p1 = Inr h
           \<and> verify_password kdf p1 h = Inr True
           \<and> verify_password kdf p2 h = Inr True"
proof -
  let ?d = "kdf 12 rnd (take 72 b1)"
  let ?hb = "[0x24, 0x32, 0x62, 0x24, 0x31, 0x32, 0x24] @ rnd @ ?d"
  have asc: "list_all is_ascii ?hb"
    using rnd kdf
    by (auto simp: list_all_iff is_ascii_def intro: radix64_ascii [unfolded is_ascii_def])
  have h: "get_password_hash kdf rnd p1 = Inr (map unat ?hb)"
    by (rule get_password_hash_value [OF e1 rnd kdf])
  have enc: "encode_utf8 (map unat ?hb) = Inr ?hb"
    by (rule encode_utf8_ascii [OF asc])
  have ck: "checkpw kdf (take 72 b1) ?hb = Inr True"
    unfolding checkpw_def using hashpw_gensalt [OF rnd, of "take 72 b1" kdf ?d] by simp
  have v1: "verify_password kdf p1 (map unat ?hb) = Inr True"
    unfolding verify_password_def using e1 enc ck by simp
  have v2: "verify_password kdf p2 (map unat ?hb) = Inr True"
    unfolding verify_password_def using e2 enc ck same by simp
  from h v1 v2 show ?thesis by blast
qed

theorem verify_after_hash_witness:
  "\<exists>h. get_password_hash sample_kdf (replicate 22 0x2E) (replicate 71 0x41 @ [0xE9, 0x42]) = Inr h
     \<and> verify_password sample_kdf (replicate 71 0x41 @ [0xE9, 0x42]) h = Inr True
     \<and> verify_password sample_kdf (replicate 71 0x41 @ [0xE3, 0x43, 0x44]) h = Inr True"
proof -
  have 1: "encode_utf8 (replicate 71 0x41 @ [0xE9, 0x42])
             = Inr (replicate 71 0x41 @ [0xC3, 0xA9, 0x42])"
    by code_simp
  have 2: "encode_utf8 (replicate 71 0x41 @ [0xE3, 0x43, 0x44])
             = Inr (replicate 71 0x41 @ [0xC3, 0xA3, 0x43, 0x44])"
    by code_simp
  have 3: "take 72 (replicate 71 0x41 @ [0xC3, 0xA9, 0x42])
             = take 72 (replicate 71 (0x41::byte) @ [0xC3, 0xA3, 0x43, 0x44])"
    by code_simp
  have 4: "length (replicate 22 (0x2E::byte)) = 22 \<and> list_all radix64 (replicate 22 0x2E)"
    by code_simp
  show ?thesis
    by (rule verify_after_hash [OF 1 2 3 4 sample_kdf_ascii])
qed

section \<open>Properties of the token codec\<close>

lemma timegm_mono: "a \<le> b \<Longrightarrow> timegm a \<le> timegm b"
  unfolding timegm_def by (rule zdiv_mono1) simp_all

lemma create_access_token_pair_value:
  assumes alg: "hmac_alg (JWT_ALGORITHM st)"
  shows "create_access_token st mac now [(''sub'', JStr uid), (''email'', JStr em)] None
           = Inr (Jws (JWT_ALGORITHM st)
                   [(''sub'', JStr uid), (''email'', JStr em),
                    (''exp'', JInt (timegm (now + ACCESS_TOKEN_EXPIRE_MINUTES st * 60 * 1000000))),
                    (''iat'', JInt (timegm now)), (''type'', JStr ''access'')]
                   (mac (JWT_ALGORITHM st) (SECRET_KEY st)
                     [(''sub'', JStr uid), (''email'', JStr em),
                      (''exp'', JInt (timegm (now + ACCESS_TOKEN_EXPIRE_MINUTES st * 60 * 1000000))),
                      (''iat'', JInt (timegm now)), (''type'', JStr ''access'')]))"
  using alg by (simp add: create_access_token_def jwt_encode_def to_intdate_def Let_def)

lemma create_refresh_token_pair_value:
  assumes alg: "hmac_alg (JWT_ALGORITHM st)"
  shows "create_refresh_token st mac now [(''sub'', JStr uid)] None
           = Inr (Jws (JWT_ALGORITHM st)
                   [(''sub'', JStr uid),
                    (''exp'', JInt (timegm (now + REFRESH_TOKEN_EXPIRE_DAYS st * 86400 * 1000000))),
                    (''iat'', JInt (timegm now)), (''type'', JStr ''refresh'')]
                   (mac (JWT_ALGORITHM st) (SECRET_KEY st)
                     [(''sub'', JStr uid),
                      (''exp'', JInt (timegm (now + REFRESH_TOKEN_EXPIRE_DAYS st * 86400 * 1000000))),
                      (''iat'', JInt (timegm now)), (''type'', JStr ''refresh'')]))"
  using alg by (simp add: create_refresh_token_def jwt_encode_def to_intdate_def Let_def)

lemma decode_token_signed:
  assumes alg: "hmac_alg (JWT_ALGORITHM st)"
    and v: "validate_claims int_of_str (timegm now) c = Inr ()"
  shows "decode_token st mac int_of_str now
           (Jws (JWT_ALGORITHM st) c (mac (JWT_ALGORITHM st) (SECRET_KEY st) c)) = Inr c"
  using alg v by (simp add: decode_token_def jwt_decode_def)

text \<open>
  C2. A token pair issued for a user id and an email at \<open>now\<close> decodes, at any
  instant \<open>now'\<close> up to the expiry of its tokens (so also at \<open>now\<close> itself, when
  the configured lifetimes are not negative), to claims with \<open>sub\<close> the user id, and
  for the access token \<open>email\<close> the email and \<open>type\<close> "access", for the refresh
  token no \<open>email\<close> and \<open>type\<close> "refresh". The configured algorithm is an HMAC one.
\<close>

theorem decode_after_issue:
  assumes alg: "hmac_alg (JWT_ALGORITHM st)"
    and ta: "now' \<le> now + ACCESS_TOKEN_EXPIRE_MINUTES st * 60 * 1000000"
    and tr: "now' \<le> now + REFRESH_TOKEN_EXPIRE_DAYS st * 86400 * 1000000"
  shows "\<exists>a r pa pr.
           create_token_pair st mac now uid em
             = Inr \<lparr>t_access_token = a, t_refresh_token = r, t_token_type = ''bearer''\<rparr>
           \<and> decode_token st mac int_of_str now' a = Inr pa
           \<and> map_of pa ''sub'' = Some (JStr uid) \<and> map_of pa ''email'' = Some (JStr em)
           \<and> map_of pa ''type'' = Some (JStr ''access'')
           \<and> decode_token st mac int_of_str now' r = Inr pr
           \<and> map_of pr ''sub'' = Some (JStr uid) \<and> map_of pr ''email'' = None
           \<and> map_of pr ''type'' = Some (JStr ''refresh'')"
proof -
  let ?pa = "[(''sub'', JStr uid), (''email'', JStr em),
              (''exp'', JInt (timegm (now + ACCESS_TOKEN_EXPIRE_MINUTES st * 60 * 1000000))),
              (''iat'', JInt (timegm now)), (''type'', JStr ''access'')]"
  let ?pr = "[(''sub'', JStr uid),
              (''exp'', JInt (timegm (now + REFRESH_TOKEN_EXPIRE_DAYS st * 86400 * 1000000))),
              (''iat'', JInt (timegm now)), (''type'', JStr ''refresh'')]"
  let ?a = "Jws (JWT_ALGORITHM st) ?pa (mac (JWT_ALGORITHM st) (SECRET_KEY st) ?pa)"
  let ?r = "Jws (JWT_ALGORITHM st) ?pr (mac (JWT_ALGORITHM st) (SECRET_KEY st) ?pr)"
  have pair: "create_token_pair st mac now uid em
                = Inr \<lparr>t_access_token = ?a, t_refresh_token = ?r, t_token_type = ''bearer''\<rparr>"
    unfolding create_token_pair_def
    by (simp add: create_access_token_pair_value [OF alg] create_refresh_token_pair_value [OF alg])
  have va: "validate_claims int_of_str (timegm now') ?pa = Inr ()"
    using timegm_mono [OF ta]
    by (simp add: validate_claims_def and_then_def validate_iat_def validate_nbf_def validate_exp_def
      validate_aud_def validate_sub_def validate_jti_def validate_at_hash_def int_claim_def is_str_def)
  have vr: "validate_claims int_of_str (timegm now') ?pr = Inr ()"
    using timegm_mono [OF tr]
    by (simp add: validate_claims_def and_then_def validate_iat_def validate_nbf_def validate_exp_def
      validate_aud_def validate_sub_def validate_jti_def validate_at_hash_def int_claim_def is_str_def)
  have da: "decode_token st mac int_of_str now' ?a = Inr ?pa"
    by (rule decode_token_signed [OF alg va])
  have dr: "decode_token st mac int_of_str now' ?r = Inr ?pr"
    by (rule decode_token_signed [OF alg vr])
  have ma: "map_of ?pa ''sub'' = Some (JStr uid) \<and> map_of ?pa ''email'' = Some (JStr em)
            \<and> map_of ?pa ''type'' = Some (JStr ''access'')" by simp
  have mr: "map_of ?pr ''sub'' = Some (JStr uid) \<and> map_of ?pr ''email'' = None
            \<and> map_of ?pr ''type'' = Some (JStr ''refresh'')" by simp
  from pair da dr ma mr show ?thesis by blast
qed

theorem decode_after_issue_witness:
  "\<exists>a r pa pr.
     create_token_pair sample_settings sample_mac 1700000000123456 ''111'' ''alice@example.com''
       = Inr \<lparr>t_access_token = a, t_refresh_token = r, t_token_type = ''bearer''\<rparr>
     \<and> decode_token sample_settings sample_mac sample_int_of_str 1700000000123456 a = Inr pa
     \<and> map_of pa ''sub'' = Some (JStr ''111'')
     \<and> map_of pa ''email'' = Some (JStr ''alice@example.com'')
     \<and> map_of pa ''type'' = Some (JStr ''access'')
     \<and> decode_token sample_settings sample_mac sample_int_of_str 1700000000123456 r = Inr pr
     \<and> map_of pr ''sub'' = Some (JStr ''111'') \<and> map_of pr ''email'' = None
     \<and> map_of pr ''type'' = Some (JStr ''refresh'')"
  by (rule decode_after_issue)
    (simp_all add: sample_settings_def default_settings_def hmac_alg_def)


lemma int_claim_Inr: "(int_claim int_of_str v = Inr n) = (py_int int_of_str v = Inr n)"
  by (auto simp: int_claim_def split: sum.splits py_error.splits)































section \<open>Properties of the identity resolver\<close>

lemma get_current_user_accepted:
  assumes d: "decode_token st mac int_of_str now tok = Inr payload"
    and t: "map_of payload ''type'' = Some (JStr ''access'')"
    and s: "map_of payload ''sub'' = Some (JStr sub)"
  shows "get_current_user st mac int_of_str uuid_parse now db tok =
     (case uuid_parse sub of
        None \<Rightarrow> Inl (HTTPException 401 (Msg ''Could not validate credentials'') [])
      | Some i \<Rightarrow>
          (case find (\<lambda>u. user_id u = i) db of
             None \<Rightarrow> Inl (HTTPException 404 (Msg ''User not found'') [])
           | Some u \<Rightarrow>
               if is_active u then Inr u
               else Inl (HTTPException 403 (Msg ''Inactive user'') [])))"
  using d t s
  by (simp add: get_current_user_def verify_token_type_def split: option.splits)

lemma get_current_user_rejected:
  assumes d: "decode_token st mac int_of_str now tok = Inl e"
  shows "get_current_user st mac int_of_str uuid_parse now db tok = Inl e"
  using d by (simp add: get_current_user_def)

text \<open>
  C4 (the first case, evaluated). For a validly signed, unexpired access token whose
  \<open>sub\<close> is not an identifier, \<open>get_current_user\<close> raises status 401 with the
  detail of an invalid token but without the \<open>WWW-Authenticate\<close> header that the
  rejection of an invalid token carries.
\<close>

theorem malformed_subject_rejection_differs:
  "get_current_user sample_settings sample_mac sample_int_of_str sample_uuid_parse
      1700000000000000 [alice]
      (signed sample_settings sample_mac
         [(''sub'', JStr ''not-a-uuid''), (''exp'', JInt 1700001800), (''type'', JStr ''access'')])
     = Inl (HTTPException 401 (Msg ''Could not validate credentials'') [])
   \<and> get_current_user sample_settings sample_mac sample_int_of_str sample_uuid_parse
       1700000000000000 [alice] (Garbage ''x'')
     = Inl (HTTPException 401 (Msg ''Could not validate credentials'')
              [(''WWW-Authenticate'', ''Bearer'')])"
  by (simp add: get_current_user_def decode_token_def jwt_decode_def signed_def
      sample_settings_def default_settings_def hmac_alg_def timegm_def verify_token_type_def
      sample_uuid_parse_def credentials_exception_def
      validate_claims_def and_then_def validate_iat_def validate_nbf_def validate_exp_def
      validate_aud_def validate_sub_def validate_jti_def validate_at_hash_def int_claim_def is_str_def)

section \<open>Properties of the credential service\<close>




lemma h_ok: "get_password_hash sample_kdf (replicate 22 0x2E) sample_password = Inr sample_hash"
  by code_simp



lemma refresh_token_wrong_type:
  assumes d: "decode_token st mac int_of_str now tok = Inr payload"
    and t: "map_of payload ''type'' \<noteq> Some (JStr ''refresh'')"
  shows "refresh_token st mac int_of_str uuid_str now db tok = Inl invalid_refresh_token"
  using d t by (simp add: refresh_token_def verify_token_type_def)

text \<open>
  C6, as amended. \<open>refresh_token\<close> rejects a token that decodes and has type
  "access" with 401 "Invalid refresh token", the exception it raises for a token that
  does not decode: the wrong type is rejected, but not told apart.
\<close>

theorem refresh_rejects_uniformly:
  "(decode_token st mac int_of_str now tok = Inr payload
      \<and> map_of payload ''type'' = Some (JStr ''access'')
     \<longrightarrow> refresh_token st mac int_of_str uuid_str now db tok = Inl invalid_refresh_token)
   \<and> (decode_token st mac int_of_str now tok = Inl e
     \<longrightarrow> refresh_token st mac int_of_str uuid_str now db tok = Inl invalid_refresh_token)"
  by (auto simp: refresh_token_def verify_token_type_def)

theorem refresh_rejects_uniformly_witness:
  "refresh_token sample_settings sample_mac sample_int_of_str sample_uuid_str
       1700000000000000 [alice]
       (signed sample_settings sample_mac
          [(''sub'', JStr ''111''), (''exp'', JInt 1700001800), (''type'', JStr ''access'')])
     = Inl invalid_refresh_token
   \<and> refresh_token sample_settings sample_mac sample_int_of_str sample_uuid_str
       1700000000000000 [alice]
       (Garbage ''x'') = Inl invalid_refresh_token"
  using refresh_rejects_uniformly [of sample_settings sample_mac sample_int_of_str
      1700000000000000
      "signed sample_settings sample_mac
          [(''sub'', JStr ''111''), (''exp'', JInt 1700001800), (''type'', JStr ''access'')]"
      "[(''sub'', JStr ''111''), (''exp'', JInt 1700001800), (''type'', JStr ''access'')]"
      sample_uuid_str "[alice]" credentials_exception]
    refresh_rejects_uniformly [of sample_settings sample_mac sample_int_of_str
      1700000000000000
      "Garbage ''x''" "[]" sample_uuid_str "[alice]" credentials_exception]
  by (simp add: decode_token_def jwt_decode_def signed_def
      sample_settings_def default_settings_def hmac_alg_def timegm_def
      validate_claims_def and_then_def validate_iat_def validate_nbf_def validate_exp_def
      validate_aud_def validate_sub_def validate_jti_def validate_at_hash_def int_claim_def is_str_def)

text \<open>
  C6, as stated, fails: for a validly signed, unexpired access token the type check
  raises the wrong-type exception, but \<open>refresh_token\<close> does not return it; it
  returns what it returns for a token that does not parse.
\<close>

theorem refresh_wrong_type_counterexample:
  "decode_token sample_settings sample_mac sample_int_of_str 1700000000000000
      (signed sample_settings sample_mac
         [(''sub'', JStr ''111''), (''exp'', JInt 1700001800), (''type'', JStr ''access'')])
     = Inr [(''sub'', JStr ''111''), (''exp'', JInt 1700001800), (''type'', JStr ''access'')]
   \<and> verify_token_type
        [(''sub'', JStr ''111''), (''exp'', JInt 1700001800), (''type'', JStr ''access'')]
        ''refresh''
     = Inl (HTTPException 401 (InvalidTokenTypeMsg ''refresh'' (Some (JStr ''access'')))
              [(''WWW-Authenticate'', ''Bearer'')])
   \<and> refresh_token sample_settings sample_mac sample_int_of_str sample_uuid_str
       1700000000000000 [alice]
       (signed sample_settings sample_mac
          [(''sub'', JStr ''111''), (''exp'', JInt 1700001800), (''type'', JStr ''access'')])
     \<noteq> Inl (HTTPException 401 (InvalidTokenTypeMsg ''refresh'' (Some (JStr ''access'')))
              [(''WWW-Authenticate'', ''Bearer'')])
   \<and> refresh_token sample_settings sample_mac sample_int_of_str sample_uuid_str
       1700000000000000 [alice]
       (signed sample_settings sample_mac
          [(''sub'', JStr ''111''), (''exp'', JInt 1700001800), (''type'', JStr ''access'')])
     = refresh_token sample_settings sample_mac sample_int_of_str sample_uuid_str
       1700000000000000 [alice]
         (Garbage ''x'')"
  by (simp add: refresh_token_def decode_token_def jwt_decode_def signed_def
      sample_settings_def default_settings_def hmac_alg_def timegm_def verify_token_type_def
      invalid_refresh_token_def
      validate_claims_def and_then_def validate_iat_def validate_nbf_def validate_exp_def
      validate_aud_def validate_sub_def validate_jti_def validate_at_hash_def int_claim_def is_str_def)

lemma find_email_iff:
  "(find (\<lambda>u. email u = e) db = None) = (\<not> (\<exists>u \<in> set db. email u = e))"
  by (auto simp: find_None_iff)

text \<open>
  C7. \<open>register\<close> fails with 400 "Email already registered" exactly when a stored
  record has the same email (compared as texts, so case-sensitively), and then leaves
  storage as it is. Otherwise, when the hasher returns \<open>h\<close> for the password, it
  appends and returns a record with that email and name, \<open>hashed_password = h\<close> and
  \<open>is_active = True\<close>.
\<close>

theorem register_outcomes:
  "(fst (register kdf rnd new_id now db user_in)
      = Inl (HTTPException 400 (Msg ''Email already registered'') []))
     = (\<exists>u \<in> set db. email u = uc_email user_in)
   \<and> ((\<exists>u \<in> set db. email u = uc_email user_in)
        \<longrightarrow> snd (register kdf rnd new_id now db user_in) = db)
   \<and> (\<not> (\<exists>u \<in> set db. email u = uc_email user_in)
        \<and> get_password_hash kdf rnd (uc_password user_in) = Inr h
      \<longrightarrow> register kdf rnd new_id now db user_in
            = (Inr \<lparr>user_id = new_id, email = uc_email user_in,
                     full_name = uc_full_name user_in, hashed_password = h,
                     is_active = True, is_verified = False, created_at = now,
                     updated_at = now, last_login = None\<rparr>,
               db @ [\<lparr>user_id = new_id, email = uc_email user_in,
                     full_name = uc_full_name user_in, hashed_password = h,
                     is_active = True, is_verified = False, created_at = now,
                     updated_at = now, last_login = None\<rparr>]))"
proof (cases "find (\<lambda>u. email u = uc_email user_in) db")
  case None
  then have n: "\<not> (\<exists>u \<in> set db. email u = uc_email user_in)"
    by (simp add: find_email_iff)
  show ?thesis using None n
    by (auto simp: register_def Let_def split: sum.splits)
next
  case (Some x)
  then have n: "\<exists>u \<in> set db. email u = uc_email user_in"
    using find_email_iff [of "uc_email user_in" db] by auto
  show ?thesis using Some n by (simp add: register_def)
qed

theorem register_outcomes_witness:
  "register sample_kdf (replicate 22 0x2E) 7 1700000000000000 [alice]
      \<lparr>uc_email = ''dave@example.com'', uc_full_name = None, uc_password = sample_password\<rparr>
     = (Inr \<lparr>user_id = 7, email = ''dave@example.com'', full_name = None,
              hashed_password = sample_hash, is_active = True, is_verified = False,
              created_at = 1700000000000000, updated_at = 1700000000000000,
              last_login = None\<rparr>,
        [alice, \<lparr>user_id = 7, email = ''dave@example.com'', full_name = None,
              hashed_password = sample_hash, is_active = True, is_verified = False,
              created_at = 1700000000000000, updated_at = 1700000000000000,
              last_login = None\<rparr>])
   \<and> fst (register sample_kdf (replicate 22 0x2E) 7 1700000000000000 [alice]
            \<lparr>uc_email = ''alice@example.com'', uc_full_name = None,
               uc_password = sample_password\<rparr>)
     = Inl (HTTPException 400 (Msg ''Email already registered'') [])
   \<and> snd (register sample_kdf (replicate 22 0x2E) 7 1700000000000000 [alice]
            \<lparr>uc_email = ''alice@example.com'', uc_full_name = None,
               uc_password = sample_password\<rparr>)
     = [alice]
   \<and> fst (register sample_kdf (replicate 22 0x2E) 7 1700000000000000 [alice]
            \<lparr>uc_email = ''Alice@example.com'', uc_full_name = None,
               uc_password = sample_password\<rparr>)
     \<noteq> Inl (HTTPException 400 (Msg ''Email already registered'') [])"
proof -
  let ?a = "\<lparr>uc_email = ''dave@example.com'', uc_full_name = None, uc_password = sample_password\<rparr>"
  let ?c = "\<lparr>uc_email = ''alice@example.com'', uc_full_name = None, uc_password = sample_password\<rparr>"
  let ?C = "\<lparr>uc_email = ''Alice@example.com'', uc_full_name = None, uc_password = sample_password\<rparr>"
  have na: "\<not> (\<exists>u \<in> set [alice]. email u = uc_email ?a)
            \<and> get_password_hash sample_kdf (replicate 22 0x2E) (uc_password ?a) = Inr sample_hash"
    by (simp add: alice_def h_ok)
  have yc: "\<exists>u \<in> set [alice]. email u = uc_email ?c"
    by (simp add: alice_def)
  have nC: "\<not> (\<exists>u \<in> set [alice]. email u = uc_email ?C)"
    by (simp add: alice_def)
  note R = register_outcomes [where kdf = sample_kdf and rnd = "replicate 22 0x2E" and new_id = 7
      and now = 1700000000000000 and db = "[alice]" and h = sample_hash]
  have 1: "register sample_kdf (replicate 22 0x2E) 7 1700000000000000 [alice] ?a
     = (Inr \<lparr>user_id = 7, email = uc_email ?a, full_name = uc_full_name ?a,
              hashed_password = sample_hash, is_active = True, is_verified = False,
              created_at = 1700000000000000, updated_at = 1700000000000000,
              last_login = None\<rparr>,
        [alice] @ [\<lparr>user_id = 7, email = uc_email ?a, full_name = uc_full_name ?a,
              hashed_password = sample_hash, is_active = True, is_verified = False,
              created_at = 1700000000000000, updated_at = 1700000000000000,
              last_login = None\<rparr>])"
    using R [where user_in = ?a] na by blast
  have 2: "fst (register sample_kdf (replicate 22 0x2E) 7 1700000000000000 [alice] ?c)
     = Inl (HTTPException 400 (Msg ''Email already registered'') [])"
    using R [where user_in = ?c] yc by blast
  have 3: "snd (register sample_kdf (replicate 22 0x2E) 7 1700000000000000 [alice] ?c) = [alice]"
    using R [where user_in = ?c] yc by blast
  have 4: "fst (register sample_kdf (replicate 22 0x2E) 7 1700000000000000 [alice] ?C)
     \<noteq> Inl (HTTPException 400 (Msg ''Email already registered'') [])"
    using R [where user_in = ?C] nC by blast
  from 1 2 3 4 show ?thesis by simp
qed

lemma hash_cost_12:
  assumes e: "encode_utf8 p = Inr b"
    and rnd: "length rnd = 22 \<and> list_all radix64 rnd"
    and kdf: "\<forall>c s pw. list_all is_ascii (kdf c s pw)"
  shows "map_sum id hash_cost (get_password_hash kdf rnd p) = Inr 12"
  by (simp add: get_password_hash_value [OF e rnd kdf] hash_cost_def)

text \<open>
  C8, evaluated. With \<open>BCRYPT_ROUNDS\<close> configured as 10, the hash of "Passw0rd!" still
  carries cost 12: \<open>get_password_hash\<close> calls \<open>gensalt\<close> with its default rounds
  and does not read the setting.
\<close>

theorem hash_cost_ignores_settings:
  "BCRYPT_ROUNDS (sample_settings\<lparr>BCRYPT_ROUNDS := 10\<rparr>) = 10
   \<and> get_password_hash sample_kdf (replicate 22 0x2E)
        [0x50, 0x61, 0x73, 0x73, 0x77, 0x30, 0x72, 0x64, 0x21]
     = Inr ([0x24, 0x32, 0x62, 0x24, 0x31, 0x32, 0x24] @ replicate 22 0x2E
            @ [0x50, 0x61, 0x73, 0x73, 0x77, 0x30, 0x72, 0x64, 0x21])
   \<and> hash_cost ([0x24, 0x32, 0x62, 0x24, 0x31, 0x32, 0x24] @ replicate 22 0x2E
            @ [0x50, 0x61, 0x73, 0x73, 0x77, 0x30, 0x72, 0x64, 0x21]) = 12"
proof -
  have e: "encode_utf8 [0x50, 0x61, 0x73, 0x73, 0x77, 0x30, 0x72, 0x64, 0x21]
             = Inr [0x50, 0x61, 0x73, 0x73, 0x77, 0x30, 0x72, 0x64, 0x21]"
    by (simp add: utf8_char_def)
  have r: "length (replicate 22 (0x2E::byte)) = 22 \<and> list_all radix64 (replicate 22 0x2E)"
    by (simp add: list_all_iff radix64_def)
  have h: "get_password_hash sample_kdf (replicate 22 0x2E)
        [0x50, 0x61, 0x73, 0x73, 0x77, 0x30, 0x72, 0x64, 0x21]
     = Inr ([0x24, 0x32, 0x62, 0x24, 0x31, 0x32, 0x24] @ replicate 22 0x2E
            @ [0x50, 0x61, 0x73, 0x73, 0x77, 0x30, 0x72, 0x64, 0x21])"
    by (simp add: get_password_hash_value [OF e r sample_kdf_ascii] sample_kdf_def)
  show ?thesis using h by (simp add: hash_cost_def)
qed

lemma validate_password_ok:
  "(\<exists>v'. validate_password ct v = Inr v')
     = (8 \<le> length v \<and> list_ex (py_isupper ct) v \<and> list_ex (py_islower ct) v
        \<and> list_ex (py_isdigit ct) v)"
  by (auto simp: validate_password_def)

lemma UserCreate_Inr:
  "UserCreate ct ev body = Inr user_in \<Longrightarrow>
     uc_password user_in = uc_password body
     \<and> 8 \<le> length (uc_password body) \<and> length (uc_password body) \<le> 100
     \<and> list_ex (py_isupper ct) (uc_password body) \<and> list_ex (py_islower ct) (uc_password body)
     \<and> list_ex (py_isdigit ct) (uc_password body)"
  by (auto simp: UserCreate_def Let_def password_field_def validate_password_def
      split: option.splits if_splits sum.splits)

lemma UserCreate_bad_password:
  assumes "\<not> (8 \<le> length (uc_password body) \<and> length (uc_password body) \<le> 100
     \<and> list_ex (py_isupper ct) (uc_password body) \<and> list_ex (py_islower ct) (uc_password body)
     \<and> list_ex (py_isdigit ct) (uc_password body))"
  shows "UserCreate ct ev body
     = Inl (RequestValidationError
             ((case ev (uc_email body) of None \<Rightarrow> [''email''] | Some _ \<Rightarrow> []) @ [''password'']))"
  using assms
  by (auto simp: UserCreate_def Let_def password_field_def validate_password_def
      split: option.splits)

text \<open>
  C10. When the password is shorter than 8 or longer than 100 characters, or has no
  uppercase letter, no lowercase letter or no digit, the \<open>register\<close> route returns
  the validation error for the field \<open>password\<close> and leaves storage as it is,
  whatever the hasher, the salt, the new id and the clock are. \<open>register\<close> runs only
  on a body that \<open>UserCreate\<close> accepted, and such a body's password satisfies all the
  constraints.
\<close>

theorem register_route_validates:
  "(\<not> (8 \<le> length (uc_password body) \<and> length (uc_password body) \<le> 100
        \<and> list_ex (py_isupper ct) (uc_password body)
        \<and> list_ex (py_islower ct) (uc_password body)
        \<and> list_ex (py_isdigit ct) (uc_password body))
     \<longrightarrow> register_route ct ev kdf rnd new_id now db body
          = (Inl (RequestValidationError
                   ((case ev (uc_email body) of None \<Rightarrow> [''email''] | Some _ \<Rightarrow> [])
                    @ [''password''])), db))
   \<and> (UserCreate ct ev body = Inr user_in
     \<longrightarrow> uc_password user_in = uc_password body
         \<and> 8 \<le> length (uc_password body) \<and> length (uc_password body) \<le> 100
         \<and> list_ex (py_isupper ct) (uc_password body)
         \<and> list_ex (py_islower ct) (uc_password body)
         \<and> list_ex (py_isdigit ct) (uc_password body)
         \<and> register_route ct ev kdf rnd new_id now db body
           = (case register kdf rnd new_id now db user_in of
                (Inl e, db') \<Rightarrow> (Inl e, db')
              | (Inr u, db') \<Rightarrow> (Inr (UserResponse u), db')))"
proof -
  have 1: "register_route ct ev kdf rnd new_id now db body
          = (Inl (RequestValidationError
                   ((case ev (uc_email body) of None \<Rightarrow> [''email''] | Some _ \<Rightarrow> [])
                    @ [''password''])), db)"
    if "\<not> (8 \<le> length (uc_password body) \<and> length (uc_password body) \<le> 100
        \<and> list_ex (py_isupper ct) (uc_password body)
        \<and> list_ex (py_islower ct) (uc_password body)
        \<and> list_ex (py_isdigit ct) (uc_password body))"
    using UserCreate_bad_password [OF that, of ev] by (simp add: register_route_def)
  have 2: "register_route ct ev kdf rnd new_id now db body
           = (case register kdf rnd new_id now db user_in of
                (Inl e, db') \<Rightarrow> (Inl e, db')
              | (Inr u, db') \<Rightarrow> (Inr (UserResponse u), db'))"
    if "UserCreate ct ev body = Inr user_in"
    using that by (simp add: register_route_def)
  from 1 2 UserCreate_Inr [of ct ev body user_in] show ?thesis by blast
qed

theorem register_route_validates_witness:
  "register_route sample_chartab Some sample_kdf (replicate 22 0x2E) 7 1700000000000000 [alice]
      \<lparr>uc_email = ''dave@example.com'', uc_full_name = None,
         uc_password = [0x70, 0x61, 0x73, 0x73, 0x77, 0x30, 0x72, 0x64, 0x21]\<rparr>
     = (Inl (RequestValidationError [''password'']), [alice])
   \<and> register_route sample_chartab Some sample_kdf (replicate 22 0x2E) 7 1700000000000000 [alice]
      \<lparr>uc_email = ''dave@example.com'', uc_full_name = None, uc_password = sample_password\<rparr>
     = (case register sample_kdf (replicate 22 0x2E) 7 1700000000000000 [alice]
               \<lparr>uc_email = ''dave@example.com'', uc_full_name = None,
                  uc_password = sample_password\<rparr> of
          (Inl e, db') \<Rightarrow> (Inl e, db')
        | (Inr u, db') \<Rightarrow> (Inr (UserResponse u), db'))"
proof -
  let ?bad = "\<lparr>uc_email = ''dave@example.com'', uc_full_name = None,
         uc_password = [0x70, 0x61, 0x73, 0x73, 0x77, 0x30, 0x72, 0x64, 0x21]\<rparr>"
  let ?ok = "\<lparr>uc_email = ''dave@example.com'', uc_full_name = None, uc_password = sample_password\<rparr>"
  have b: "\<not> (8 \<le> length (uc_password ?bad) \<and> length (uc_password ?bad) \<le> 100
        \<and> list_ex (py_isupper sample_chartab) (uc_password ?bad)
        \<and> list_ex (py_islower sample_chartab) (uc_password ?bad)
        \<and> list_ex (py_isdigit sample_chartab) (uc_password ?bad))"
    by (simp add: sample_chartab_def)
  have g: "UserCreate sample_chartab Some ?ok = Inr ?ok"
    by (simp add: UserCreate_def password_field_def validate_password_def sample_chartab_def
        sample_password_def)
  note V = register_route_validates [where ct = sample_chartab and ev = Some and kdf = sample_kdf
      and rnd = "replicate 22 0x2E" and new_id = 7 and now = 1700000000000000 and db = "[alice]"]
  have 1: "register_route sample_chartab Some sample_kdf (replicate 22 0x2E) 7 1700000000000000
             [alice] ?bad
     = (Inl (RequestValidationError
               ((case Some (uc_email ?bad) of None \<Rightarrow> [''email''] | Some _ \<Rightarrow> [])
                @ [''password''])), [alice])"
    using V [where body = ?bad and user_in = ?ok] b by blast
  have 2: "register_route sample_chartab Some sample_kdf (replicate 22 0x2E) 7 1700000000000000
             [alice] ?ok
     = (case register sample_kdf (replicate 22 0x2E) 7 1700000000000000 [alice] ?ok of
          (Inl e, db') \<Rightarrow> (Inl e, db')
        | (Inr u, db') \<Rightarrow> (Inr (UserResponse u), db'))"
    using V [where body = ?ok and user_in = ?ok] g by blast
  from 1 2 show ?thesis by simp
qed

section \<open>Properties of the responses\<close>

text \<open>
  The response built from a user record does not depend on the stored hash: the
  record type \<open>user_response\<close> has no field for it, and two records that differ in
  \<open>hashed_password\<close> only are serialised alike.
\<close>

lemma UserResponse_ignores_hash: "UserResponse (u\<lparr>hashed_password := h\<rparr>) = UserResponse u"
  by (simp add: UserResponse_def)

end
